theory Spec2Isabelle
  imports Main "HOL-Library.Word"
begin

section \<open>Strings\<close>

text \<open>
  The program is a TypeScript/React single-page application (\<^verbatim>\<open>src/App.tsx\<close>).
  A JavaScript string is a sequence of UTF-16 code units: \<^verbatim>\<open>length\<close>,
  \<^verbatim>\<open>slice\<close>, \<^verbatim>\<open>includes\<close>, \<^verbatim>\<open>split\<close> and regular
  expressions without the \<^verbatim>\<open>u\<close> flag all count and compare code units. The model
  keeps that: a string is a list of 16-bit words, and \<open>str\<close> embeds an ASCII literal.
\<close>

type_synonym code_unit = "16 word"
type_synonym jsstring = "code_unit list"

definition str :: "string \<Rightarrow> jsstring" where
  "str s = map of_char s"

text \<open>
  \<^verbatim>\<open>String.prototype.toLowerCase\<close> follows the Unicode case mappings. The model is exact
  on Basic Latin and on the two code points outside it whose lower case contains a Basic
  Latin letter (U+0130 gives \<^verbatim>\<open>i\<close> followed by U+0307, U+212A KELVIN SIGN gives
  \<^verbatim>\<open>k\<close>); every other code unit is left as it is. Since the crisis keywords are
  ASCII, this decides every match the program can find.
\<close>

fun lower_unit :: "code_unit \<Rightarrow> jsstring" where
  "lower_unit c =
     (if 0x41 \<le> c \<and> c \<le> 0x5A then [c + 0x20]
      else if c = 0x130 then [0x69, 0x307]
      else if c = 0x212A then [0x6B]
      else [c])"

definition toLowerCase :: "jsstring \<Rightarrow> jsstring" where
  "toLowerCase s = concat (map lower_unit s)"

fun startsWith :: "jsstring \<Rightarrow> jsstring \<Rightarrow> bool" where
  "startsWith s [] = True"
| "startsWith [] (k # ks) = False"
| "startsWith (c # s) (k # ks) = (c = k \<and> startsWith s ks)"

text \<open>\<^verbatim>\<open>s.includes(k)\<close>: \<open>k\<close> occurs in \<open>s\<close> as a contiguous run of code units.\<close>

fun includes_str :: "jsstring \<Rightarrow> jsstring \<Rightarrow> bool" where
  "includes_str [] k = (k = [])"
| "includes_str (c # s) k = (startsWith (c # s) k \<or> includes_str s k)"

text \<open>
  \<^verbatim>\<open>trim()\<close> strips the ECMAScript WhiteSpace and LineTerminator code points from both
  ends of a string.
\<close>

definition is_line_terminator :: "code_unit \<Rightarrow> bool" where
  "is_line_terminator c = (c = 0x0A \<or> c = 0x0D \<or> c = 0x2028 \<or> c = 0x2029)"

definition is_space :: "code_unit \<Rightarrow> bool" where
  "is_space c =
     (c = 0x09 \<or> c = 0x0B \<or> c = 0x0C \<or> c = 0x20 \<or> c = 0xA0 \<or> c = 0x1680
      \<or> (0x2000 \<le> c \<and> c \<le> 0x200A) \<or> c = 0x202F \<or> c = 0x205F \<or> c = 0x3000
      \<or> c = 0xFEFF \<or> is_line_terminator c)"

definition trim :: "jsstring \<Rightarrow> jsstring" where
  "trim s = rev (dropWhile is_space (rev (dropWhile is_space s)))"

text \<open>
  \<^verbatim>\<open>s.split(',')\<close>: the pieces between the separators, in order; the empty string
  splits into one empty piece.
\<close>

fun split_on :: "code_unit \<Rightarrow> jsstring \<Rightarrow> jsstring list" where
  "split_on sep [] = [[]]"
| "split_on sep (c # s) =
     (if c = sep then [] # split_on sep s
      else (case split_on sep s of
              [] \<Rightarrow> [[c]]
            | p # ps \<Rightarrow> (c # p) # ps))"

text \<open>
  \<^verbatim>\<open>n.toString()\<close> for an integral number below \<open>10\<^sup>2\<^sup>1\<close> in magnitude, as every
  clock reading is: its decimal digits, with a sign.
\<close>

fun digits :: "nat \<Rightarrow> jsstring" where
  "digits n = (if n < 10 then [0x30 + of_nat n] else digits (n div 10) @ [0x30 + of_nat (n mod 10)])"

definition toString :: "int \<Rightarrow> jsstring" where
  "toString n = (if n < 0 then 0x2D # digits (nat (- n)) else digits (nat n))"

section \<open>Crisis detector\<close>

text \<open>
  Lines 91 and 223:
  \<^verbatim>\<open>CRISIS_KEYWORDS.some(k => messageText.toLowerCase().includes(k))\<close>.
\<close>

definition CRISIS_KEYWORDS :: "jsstring list" where
  "CRISIS_KEYWORDS = map str [''suicide'', ''kill myself'', ''self-harm'', ''end it all'',
     ''hurt myself'', ''giving up on life'']"

definition detect :: "jsstring \<Rightarrow> bool" where
  "detect messageText = list_ex (\<lambda>k. includes_str (toLowerCase messageText) k) CRISIS_KEYWORDS"

lemma startsWith_iff: "startsWith s k \<longleftrightarrow> (\<exists>post. s = k @ post)"
  by (induction s k rule: startsWith.induct) auto

lemma includes_str_iff: "includes_str s k \<longleftrightarrow> (\<exists>pre post. s = pre @ k @ post)"
proof (induction s)
  case Nil
  show ?case by auto
next
  case (Cons c s)
  have "(\<exists>pre post. c # s = pre @ k @ post) \<longleftrightarrow>
        (\<exists>post. c # s = k @ post) \<or> (\<exists>pre post. s = pre @ k @ post)"
    (is "?L \<longleftrightarrow> ?A \<or> ?B")
  proof
    assume ?L
    then obtain pre post where e: "c # s = pre @ k @ post" by blast
    show "?A \<or> ?B"
    proof (cases pre)
      case Nil
      with e show ?thesis by auto
    next
      case (Cons p pre')
      with e have "s = pre' @ k @ post" by simp
      then show ?thesis by blast
    qed
  next
    assume "?A \<or> ?B"
    then show ?L
    proof
      assume ?A
      then obtain post where "c # s = [] @ k @ post" by auto
      then show ?L by blast
    next
      assume ?B
      then obtain pre post where "s = pre @ k @ post" by blast
      then have "c # s = (c # pre) @ k @ post" by simp
      then show ?L by blast
    qed
  qed
  with Cons show ?case by (simp add: startsWith_iff)
qed

text \<open>
  C1 (as the claim states it, refuted). The claim says the detector returns true on
  "I've been thinking about hurting myself lately". The text contains "hurting myself",
  which is none of the six listed phrases ("hurt myself" is followed by a space in the
  list's phrase, by "ing" in the text), so the detector returns false.
\<close>

theorem C1_hurting_myself_not_detected:
  "detect (str ''I've been thinking about hurting myself lately'') = False"
  by code_simp

text \<open>
  C1 (amended). The crisis detector is a pure function of the message text: it holds
  exactly when one of the six fixed keywords occurs as a contiguous substring of the
  lower-cased text, so two texts with the same lower-casing get the same answer. It
  returns false on "I've been thinking about hurting myself lately" and on
  "this homework is killing me".
\<close>

theorem C1_detect_substring_match:
  "(detect t \<longleftrightarrow> (\<exists>k \<in> set CRISIS_KEYWORDS. \<exists>pre post. toLowerCase t = pre @ k @ post))
   \<and> (toLowerCase a = toLowerCase b \<longrightarrow> detect a = detect b)
   \<and> \<not> detect (str ''I've been thinking about hurting myself lately'')
   \<and> \<not> detect (str ''this homework is killing me'')"
proof -
  have 1: "detect t \<longleftrightarrow> (\<exists>k \<in> set CRISIS_KEYWORDS. \<exists>pre post. toLowerCase t = pre @ k @ post)"
    by (simp add: detect_def list_ex_iff includes_str_iff)
  have 2: "toLowerCase a = toLowerCase b \<longrightarrow> detect a = detect b"
    by (simp add: detect_def)
  have 3: "\<not> detect (str ''I've been thinking about hurting myself lately'')"
    by code_simp
  have 4: "\<not> detect (str ''this homework is killing me'')"
    by code_simp
  from 1 2 3 4 show ?thesis by blast
qed

theorem C1_detect_substring_match_witness:
  "detect (str ''I want to HURT MYSELF'')
   \<and> (\<exists>k \<in> set CRISIS_KEYWORDS. \<exists>pre post.
         toLowerCase (str ''I want to HURT MYSELF'') = pre @ k @ post)
   \<and> toLowerCase (str ''Suicide'') = toLowerCase (str ''SUICIDE'')
   \<and> detect (str ''Suicide'') = detect (str ''SUICIDE'')"
proof -
  have d: "detect (str ''I want to HURT MYSELF'')" by code_simp
  have l: "toLowerCase (str ''Suicide'') = toLowerCase (str ''SUICIDE'')" by code_simp
  from C1_detect_substring_match [of "str ''I want to HURT MYSELF''" "str ''Suicide''" "str ''SUICIDE''"] d l
  show ?thesis by blast
qed

section \<open>Data model\<close>

text \<open>
  Lines 37-53: the interfaces \<^verbatim>\<open>Message\<close> and \<^verbatim>\<open>Chat\<close>. Optional fields are
  options. The fields \<^verbatim>\<open>id\<close>, \<^verbatim>\<open>text\<close> and \<^verbatim>\<open>type\<close> are renamed
  \<open>chat_id\<close>, \<open>mtext\<close> and \<open>mtype\<close>, and \<^verbatim>\<open>name\<close> is \<open>file_name\<close>.
\<close>

datatype role = User | Model

datatype msg_type = ChatMsg | StudyPlanMsg | CrisisMsg

record Attachment =
  data :: jsstring
  mimeType :: jsstring
  file_name :: jsstring

record Message =
  role :: role
  mtext :: jsstring
  mtype :: "msg_type option"
  attachment :: "Attachment option"

record Chat =
  chat_id :: jsstring
  title :: jsstring
  messages :: "Message list"
  createdAt :: int

datatype error = TypeError | SyntaxError

datatype tool = NoTool | TimerTool | BreathingTool | StudyPlanTool

text \<open>
  A remote call that has been issued and not yet answered. The source holds it as the
  suspended rest of an \<^verbatim>\<open>async\<close> function; what that continuation still reads are the
  variables its closure captured when the call was made: \<^verbatim>\<open>updatedMessages\<close> and,
  through \<^verbatim>\<open>updateCurrentChatMessages\<close>, the \<^verbatim>\<open>currentChatId\<close> of that render.
\<close>

datatype turn = ChatTurn | PlanTurn

record request =
  turn :: turn
  target :: jsstring
  snapshot :: "Message list"
  contents :: "(role \<times> jsstring \<times> (jsstring \<times> jsstring) option) list"

datatype response = Reply "jsstring option" | Rejected

text \<open>
  The state of the \<^verbatim>\<open>App\<close> component (lines 96-120): its \<^verbatim>\<open>useState\<close> cells, and
  the outstanding remote calls. \<^verbatim>\<open>input\<close> is \<open>input_text\<close>. The sidebar and
  privacy flags only drive the layout and are left out.
\<close>

record app =
  chats :: "Chat list"
  currentChatId :: jsstring
  input_text :: jsstring
  isLoading :: bool
  activeTool :: tool
  attachedFile :: "Attachment option"
  suggestions :: "jsstring list"
  pending :: "request list"

definition model_msg :: "jsstring \<Rightarrow> Message" where
  "model_msg t = \<lparr>role = Model, mtext = t, mtype = None, attachment = None\<rparr>"

definition WELCOME_FIRST :: jsstring where
  "WELCOME_FIRST =
     str ''Hi there. I'm MindEase. I know things can feel overwhelming right now, but I'm here to help. ''
     @ [0x0A, 0x0A] @ str ''Before we start, on a scale from 1'' @ [0x2013]
     @ str ''5, how overwhelmed are you right now?''"

definition WELCOME_NEW :: jsstring where
  "WELCOME_NEW =
     str ''Hi there. I'm MindEase. Before we dive in, on a scale from 1'' @ [0x2013]
     @ str ''5, how overwhelmed are you right now?''"

definition initialChat :: "int \<Rightarrow> Chat" where
  "initialChat now =
     \<lparr>chat_id = str ''1'', title = str ''New Chat'', messages = [model_msg WELCOME_FIRST],
      createdAt = now\<rparr>"

text \<open>
  The first render with nothing stored (lines 99-120): one default chat, which is the
  current one (\<^verbatim>\<open>useState(chats[0].id)\<close>).
\<close>

definition initial_app :: "int \<Rightarrow> app" where
  "initial_app now =
     \<lparr>chats = [initialChat now], currentChatId = chat_id (initialChat now), input_text = [],
      isLoading = False, activeTool = NoTool, attachedFile = None, suggestions = [],
      pending = []\<rparr>"

section \<open>Session store\<close>

text \<open>
  Lines 145-155. \<^verbatim>\<open>Date.now()\<close> is read twice, once for the id and once for
  \<^verbatim>\<open>createdAt\<close>; the two readings are the parameters.
\<close>

definition createNewChat :: "int \<Rightarrow> int \<Rightarrow> app \<Rightarrow> app" where
  "createNewChat now_id now_created s =
     (let newChat = \<lparr>chat_id = toString now_id, title = str ''New Chat'',
                      messages = [model_msg WELCOME_NEW], createdAt = now_created\<rparr>
      in s\<lparr>chats := newChat # chats s, currentChatId := chat_id newChat\<rparr>)"

text \<open>
  Lines 157-165. \<^verbatim>\<open>setChats(newChats)\<close> is queued before \<^verbatim>\<open>newChats[0].id\<close> is read;
  when the filter has left nothing, that read throws a TypeError after the empty list has
  been stored. The result is the state together with the error thrown, if any.
\<close>

definition deleteChat :: "jsstring \<Rightarrow> app \<Rightarrow> app \<times> error option" where
  "deleteChat i s =
     (if length (chats s) = 1 then (s, None)
      else
        let newChats = filter (\<lambda>c. chat_id c \<noteq> i) (chats s);
            s1 = s\<lparr>chats := newChats\<rparr>
        in if currentChatId s = i
           then (case newChats of
                   [] \<Rightarrow> (s1, Some TypeError)
                 | c # cs \<Rightarrow> (s1\<lparr>currentChatId := chat_id c\<rparr>, None))
           else (s1, None))"

text \<open>
  Lines 167-180. The function passed to \<^verbatim>\<open>prev.map\<close> is \<open>update_chat\<close>; the
  \<^verbatim>\<open>currentChatId\<close> it compares with is the one of the render whose closure it
  belongs to, given here as \<open>cid\<close>. \<^verbatim>\<open>slice(0, 20)\<close> is \<open>take 20\<close>.
\<close>

definition update_chat :: "jsstring \<Rightarrow> Message list \<Rightarrow> Chat \<Rightarrow> Chat" where
  "update_chat cid newMessages c =
     (if chat_id c = cid then
        (let newTitle =
               (if title c = str ''New Chat'' \<and> list_ex (\<lambda>m. role m = User) newMessages then
                  (let firstUserMsg =
                         (case find (\<lambda>m. role m = User) newMessages of
                            Some m \<Rightarrow> mtext m
                          | None \<Rightarrow> [])
                   in take 20 firstUserMsg @ (if length firstUserMsg > 20 then str ''...'' else []))
                else title c)
         in c\<lparr>messages := newMessages, title := newTitle\<rparr>)
      else c)"

definition updateChatMessages :: "jsstring \<Rightarrow> Message list \<Rightarrow> app \<Rightarrow> app" where
  "updateChatMessages cid newMessages s = s\<lparr>chats := map (update_chat cid newMessages) (chats s)\<rparr>"

definition updateCurrentChatMessages :: "Message list \<Rightarrow> app \<Rightarrow> app" where
  "updateCurrentChatMessages newMessages s = updateChatMessages (currentChatId s) newMessages s"

text \<open>Line 367: a click on the sidebar entry of a chat.\<close>

definition setCurrentChatId :: "jsstring \<Rightarrow> app \<Rightarrow> app" where
  "setCurrentChatId i s = s\<lparr>currentChatId := i\<rparr>"

text \<open>
  Lines 127-128: \<^verbatim>\<open>chats.find(c => c.id === currentChatId) || chats[0]\<close>. On an empty
  store it is undefined and the render throws at \<^verbatim>\<open>currentChat.messages\<close>, so the
  handlers below only ever run where \<open>currentChat\<close> is defined.
\<close>

definition currentChat :: "app \<Rightarrow> Chat option" where
  "currentChat s =
     (case find (\<lambda>c. chat_id c = currentChatId s) (chats s) of
        Some c \<Rightarrow> Some c
      | None \<Rightarrow> (case chats s of [] \<Rightarrow> None | c # cs \<Rightarrow> Some c))"

definition current_messages :: "app \<Rightarrow> Message list" where
  "current_messages s = (case currentChat s of Some c \<Rightarrow> messages c | None \<Rightarrow> [])"

text \<open>
  The store's operations as the user can trigger them. The sidebar renders one entry and
  one delete icon per stored chat (lines 363-382), so selecting or deleting an id that no
  stored chat has is not an event; it leaves the state alone. A handler that throws ends
  the run.
\<close>

datatype op =
    CreateSession int int
  | DeleteSession jsstring
  | AppendMessages "Message list"
  | SetActive jsstring

fun apply_op :: "op \<Rightarrow> app \<Rightarrow> app \<times> error option" where
  "apply_op (CreateSession now_id now_created) s = (createNewChat now_id now_created s, None)"
| "apply_op (DeleteSession i) s =
     (if i \<in> set (map chat_id (chats s)) then deleteChat i s else (s, None))"
| "apply_op (AppendMessages ms) s = (updateCurrentChatMessages ms s, None)"
| "apply_op (SetActive i) s =
     (if i \<in> set (map chat_id (chats s)) then (setCurrentChatId i s, None) else (s, None))"

fun run :: "op list \<Rightarrow> app \<Rightarrow> app \<times> error option" where
  "run [] s = (s, None)"
| "run (x # xs) s =
     (case apply_op x s of
        (s', None) \<Rightarrow> run xs s'
      | (s', Some e) \<Rightarrow> (s', Some e))"

text \<open>Line 204: the message a submit appends, with the staged attachment if there is one.\<close>

definition user_msg :: "jsstring \<Rightarrow> Attachment option \<Rightarrow> Message" where
  "user_msg t a = \<lparr>role = User, mtext = t, mtype = None, attachment = a\<rparr>"

text \<open>
  What the store relies on: it is not empty, no two chats share an id, and the current id
  is the id of a stored chat. \<open>fresh_ids\<close> says of a run that every new chat gets an id
  that no stored chat has at that moment.
\<close>

definition store_inv :: "app \<Rightarrow> bool" where
  "store_inv s =
     (chats s \<noteq> [] \<and> distinct (map chat_id (chats s))
      \<and> currentChatId s \<in> set (map chat_id (chats s)))"

fun fresh_ids :: "op list \<Rightarrow> app \<Rightarrow> bool" where
  "fresh_ids [] s = True"
| "fresh_ids (CreateSession now_id now_created # xs) s =
     (toString now_id \<notin> set (map chat_id (chats s))
      \<and> fresh_ids xs (fst (apply_op (CreateSession now_id now_created) s)))"
| "fresh_ids (x # xs) s = fresh_ids xs (fst (apply_op x s))"

subsection \<open>Facts about the store\<close>

lemma update_chat_id [simp]: "chat_id (update_chat cid ms c) = chat_id c"
  by (simp add: update_chat_def Let_def)

lemma update_chat_createdAt [simp]: "createdAt (update_chat cid ms c) = createdAt c"
  by (simp add: update_chat_def Let_def)

lemma update_chat_other: "chat_id c \<noteq> cid \<Longrightarrow> update_chat cid ms c = c"
  by (simp add: update_chat_def)

lemma update_chat_titled:
  "title c \<noteq> str ''New Chat'' \<Longrightarrow> title (update_chat cid ms c) = title c"
  by (simp add: update_chat_def Let_def)

lemma update_chat_derive:
  "chat_id c = cid \<Longrightarrow> title c = str ''New Chat'' \<Longrightarrow> find (\<lambda>m. role m = User) ms = Some m \<Longrightarrow>
   title (update_chat cid ms c)
     = take 20 (mtext m) @ (if 20 < length (mtext m) then str ''...'' else [])"
  by (auto simp: update_chat_def Let_def list_ex_iff find_None_iff dest: find_Some_iff[THEN iffD1])

lemma length_chats_update [simp]:
  "length (chats (updateCurrentChatMessages ms s)) = length (chats s)"
  by (simp add: updateCurrentChatMessages_def updateChatMessages_def)

lemma currentChatId_update [simp]:
  "currentChatId (updateCurrentChatMessages ms s) = currentChatId s"
  by (simp add: updateCurrentChatMessages_def updateChatMessages_def)

lemma chat_ids_update [simp]:
  "map chat_id (chats (updateCurrentChatMessages ms s)) = map chat_id (chats s)"
  by (simp add: updateCurrentChatMessages_def updateChatMessages_def comp_def)

lemma chats_update_nth:
  "i < length (chats s) \<Longrightarrow>
   chats (updateCurrentChatMessages ms s) ! i = update_chat (currentChatId s) ms (chats s ! i)"
  by (simp add: updateCurrentChatMessages_def updateChatMessages_def)

lemma update_only_chats:
  "updateCurrentChatMessages ms s = s\<lparr>chats := chats (updateCurrentChatMessages ms s)\<rparr>"
  by (simp add: updateCurrentChatMessages_def updateChatMessages_def)

lemma fold_update_length [simp]:
  "length (chats (fold updateCurrentChatMessages mss s)) = length (chats s)"
  by (induction mss arbitrary: s) simp_all

lemma fold_update_titled:
  "i < length (chats s) \<Longrightarrow> title (chats s ! i) \<noteq> str ''New Chat'' \<Longrightarrow>
   title (chats (fold updateCurrentChatMessages mss s) ! i) = title (chats s ! i)"
proof (induction mss arbitrary: s)
  case Nil
  show ?case by simp
next
  case (Cons ms mss)
  let ?s1 = "updateCurrentChatMessages ms s"
  have t: "title (chats ?s1 ! i) = title (chats s ! i)"
    using Cons.prems by (simp add: chats_update_nth update_chat_titled)
  have "title (chats (fold updateCurrentChatMessages mss ?s1) ! i) = title (chats ?s1 ! i)"
    using Cons.prems t by (intro Cons.IH) simp_all
  with t show ?case by simp
qed

lemma essay_title:
  "map title (chats (updateCurrentChatMessages
      (messages (initialChat now) @ [user_msg (str ''Plan my essay on memory and identity'') None])
      (initial_app now))) = [str ''Plan my essay on mem...'']"
  by (simp add: updateCurrentChatMessages_def updateChatMessages_def update_chat_def
      initial_app_def initialChat_def user_msg_def model_msg_def str_def)

lemma filter_ne_if_distinct:
  assumes "distinct (map chat_id cs)" "length cs \<noteq> 1" "cs \<noteq> []"
  shows "filter (\<lambda>c. chat_id c \<noteq> i) cs \<noteq> []"
proof -
  obtain a b rest where cs: "cs = a # b # rest"
    using assms(2,3) by (cases cs; cases "tl cs") auto
  with assms(1) have "chat_id a \<noteq> chat_id b" by auto
  then have "chat_id a \<noteq> i \<or> chat_id b \<noteq> i" by auto
  with cs show ?thesis by auto
qed

lemma deleteChat_inv:
  assumes "store_inv s"
  shows "snd (deleteChat i s) = None \<and> store_inv (fst (deleteChat i s))"
proof (cases "length (chats s) = 1")
  case True
  with assms show ?thesis by (simp add: deleteChat_def)
next
  case False
  let ?n = "filter (\<lambda>c. chat_id c \<noteq> i) (chats s)"
  from assms False have ne: "?n \<noteq> []"
    by (intro filter_ne_if_distinct) (auto simp: store_inv_def)
  then obtain c cs where n: "?n = c # cs" by (cases ?n) auto
  have d: "distinct (map chat_id ?n)"
    using assms by (simp add: store_inv_def distinct_map_filter)
  show ?thesis
  proof (cases "currentChatId s = i")
    case True
    with False n d show ?thesis
      by (simp add: deleteChat_def Let_def store_inv_def)
  next
    case neq: False
    from assms neq have "currentChatId s \<in> set (map chat_id ?n)"
      by (auto simp: store_inv_def)
    with False neq ne d show ?thesis
      by (simp add: deleteChat_def Let_def store_inv_def)
  qed
qed

lemma chats_update_empty [simp]:
  "chats (updateCurrentChatMessages ms s) = [] \<longleftrightarrow> chats s = []"
  by (simp add: updateCurrentChatMessages_def updateChatMessages_def)

lemma chat_id_set_update [simp]:
  "chat_id ` set (chats (updateCurrentChatMessages ms s)) = chat_id ` set (chats s)"
  using chat_ids_update[of ms s] by (metis set_map)

lemma apply_op_inv:
  assumes "store_inv s" "fresh_ids [x] s"
  shows "snd (apply_op x s) = None \<and> store_inv (fst (apply_op x s))"
proof (cases x)
  case (CreateSession t1 t2)
  with assms show ?thesis by (auto simp: createNewChat_def store_inv_def Let_def)
next
  case (DeleteSession i)
  with assms deleteChat_inv[of s i] show ?thesis by simp
next
  case (AppendMessages ms)
  with assms show ?thesis by (simp add: store_inv_def)
next
  case (SetActive i)
  with assms show ?thesis by (auto simp: store_inv_def setCurrentChatId_def)
qed

lemma fresh_ids_Cons: "fresh_ids (x # xs) s \<longleftrightarrow> fresh_ids [x] s \<and> fresh_ids xs (fst (apply_op x s))"
  by (cases x) simp_all

lemma store_inv_run:
  "store_inv s \<Longrightarrow> fresh_ids xs s \<Longrightarrow> snd (run xs s) = None \<and> store_inv (fst (run xs s))"
proof (induction xs arbitrary: s)
  case Nil
  then show ?case by simp
next
  case (Cons x xs)
  from Cons.prems have f: "fresh_ids [x] s" "fresh_ids xs (fst (apply_op x s))"
    using fresh_ids_Cons by blast+
  from apply_op_inv[OF Cons.prems(1) f(1)]
  obtain s' where a: "apply_op x s = (s', None)" "store_inv s'"
    by (cases "apply_op x s") auto
  with f(2) Cons.IH[of s'] show ?case by simp
qed

lemma store_inv_initial: "store_inv (initial_app now)"
  by (simp add: store_inv_def initial_app_def)

lemma deleteChat_single: "length (chats s) = 1 \<Longrightarrow> deleteChat i s = (s, None)"
  by (simp add: deleteChat_def)

lemma toString_example: "toString 1700000000000 = str ''1700000000000''"
  by (simp add: toString_def str_def)

lemma str_ids_differ:
  "str ''1700000000000'' \<noteq> str ''1''" "str ''1'' \<noteq> str ''1700000000000''"
  by (simp_all add: str_def)

subsection \<open>C2: the store is never empty\<close>

text \<open>
  What holds when ids do not collide. Deleting is a no-op when the store holds exactly one
  session. After any sequence of create, delete, append and select operations from the
  initial state in which every new session happens to get an id that no stored session
  has, no handler has thrown, the store holds at least one session, and the current id is
  the id of a stored session.
\<close>

lemma store_never_empty_if_fresh:
  assumes "fresh_ids ops (initial_app now)"
  shows "snd (run ops (initial_app now)) = None
       \<and> chats (fst (run ops (initial_app now))) \<noteq> []
       \<and> currentChatId (fst (run ops (initial_app now)))
            \<in> set (map chat_id (chats (fst (run ops (initial_app now)))))
       \<and> (length (chats s) = 1 \<longrightarrow> deleteChat i s = (s, None))
       \<and> (store_inv s \<longrightarrow>
             snd (deleteChat i s) = None
             \<and> chats (fst (deleteChat i s)) \<noteq> []
             \<and> currentChatId (fst (deleteChat i s)) \<in> set (map chat_id (chats (fst (deleteChat i s)))))"
proof -
  have r: "snd (run ops (initial_app now)) = None \<and> store_inv (fst (run ops (initial_app now)))"
    using store_inv_initial assms by (rule store_inv_run)
  have d: "store_inv s \<longrightarrow> snd (deleteChat i s) = None \<and> store_inv (fst (deleteChat i s))"
    using deleteChat_inv [of s i] by blast
  from r d deleteChat_single [of s i] show ?thesis
    unfolding store_inv_def by blast
qed

text \<open>
  C2 (the code at the failing input). The id of a new chat is
  \<^verbatim>\<open>Date.now().toString()\<close>, so two chats created at the same clock reading share it.
  From the initial state: create two sessions at reading 1700000000000, delete the session
  with id "1", then delete a session with id "1700000000000". The last delete sees two
  chats, so its guard against deleting the last session does not fire; the filter removes
  both; the empty list is stored, and reading \<^verbatim>\<open>newChats[0].id\<close> throws. The claim
  says the store keeps at least one session and the current id stays valid.
\<close>

theorem C2_duplicate_ids_empty_store:
  "run [CreateSession 1700000000000 1700000000000, CreateSession 1700000000000 1700000000000,
        DeleteSession (str ''1''), DeleteSession (str ''1700000000000'')]
       (initial_app 1699999990000)
   = ((initial_app 1699999990000)\<lparr>chats := [], currentChatId := str ''1700000000000''\<rparr>,
      Some TypeError)"
  by (simp add: createNewChat_def deleteChat_def initial_app_def initialChat_def
      toString_example str_ids_differ Let_def)

subsection \<open>C4: title derivation\<close>

text \<open>
  C4 (as the claim states it, refuted). On the user message
  "Plan my essay on memory and identity" the claim gives the title "Plan my essay on memo"
  followed by the ellipsis character U+2026. The code takes the first 20 code units,
  "Plan my essay on mem", and appends three full stops.
\<close>

theorem C4_essay_title_counterexample:
  "map title (chats (updateCurrentChatMessages
      (messages (initialChat 0) @ [user_msg (str ''Plan my essay on memory and identity'') None])
      (initial_app 0))) = [str ''Plan my essay on mem...'']
   \<and> str ''Plan my essay on mem...'' \<noteq> str ''Plan my essay on memo'' @ [0x2026]"
  by (simp add: essay_title) (simp add: str_def)

text \<open>
  C4 (amended). For the current chat, while its title is still "New Chat", an update
  whose messages contain a user message sets the title to the first 20 code units of the
  first user message's text, followed by three full stops "..." when the text is longer
  than 20 code units; on "Plan my essay on memory and identity" the title becomes
  "Plan my essay on mem...". A chat whose title is not "New Chat" keeps its title through
  any sequence of further updates.
\<close>

theorem C4_title_derivation:
  assumes "i < length (chats s)"
  shows "(chat_id (chats s ! i) = currentChatId s \<and> title (chats s ! i) = str ''New Chat''
            \<and> find (\<lambda>m. role m = User) ms = Some m
          \<longrightarrow> title (chats (updateCurrentChatMessages ms s) ! i)
                = take 20 (mtext m) @ (if 20 < length (mtext m) then str ''...'' else []))
       \<and> (title (chats s ! i) \<noteq> str ''New Chat''
          \<longrightarrow> title (chats (fold updateCurrentChatMessages mss s) ! i) = title (chats s ! i))
       \<and> map title (chats (updateCurrentChatMessages
             (messages (initialChat now) @ [user_msg (str ''Plan my essay on memory and identity'') None])
             (initial_app now))) = [str ''Plan my essay on mem...'']"
  using assms
  by (simp add: chats_update_nth update_chat_derive fold_update_titled essay_title)

theorem C4_title_derivation_witness:
  "title (chats (updateCurrentChatMessages [user_msg (str ''Plan my essay on memory and identity'') None]
                   (initial_app 0)) ! 0)
     = str ''Plan my essay on mem...''
   \<and> title (chats (fold updateCurrentChatMessages [[user_msg (str ''A later message'') None]]
                     ((initial_app 0)\<lparr>chats := [(initialChat 0)\<lparr>title := str ''Hi''\<rparr>]\<rparr>)) ! 0)
     = str ''Hi''"
proof -
  let ?m = "user_msg (str ''Plan my essay on memory and identity'') None"
  let ?s2 = "(initial_app 0)\<lparr>chats := [(initialChat 0)\<lparr>title := str ''Hi''\<rparr>]\<rparr>"
  have h1: "0 < length (chats (initial_app 0))"
    by (simp add: initial_app_def)
  have h2: "chat_id (chats (initial_app 0) ! 0) = currentChatId (initial_app 0)
            \<and> title (chats (initial_app 0) ! 0) = str ''New Chat''
            \<and> find (\<lambda>m. role m = User) [?m] = Some ?m"
    by (simp add: initial_app_def initialChat_def user_msg_def)
  have h3: "0 < length (chats ?s2)" "title (chats ?s2 ! 0) \<noteq> str ''New Chat''"
    by (simp_all add: str_def)
  have a: "title (chats (updateCurrentChatMessages [?m] (initial_app 0)) ! 0)
           = take 20 (mtext ?m) @ (if 20 < length (mtext ?m) then str ''...'' else [])"
    using C4_title_derivation [OF h1, of "[?m]" ?m] h2 by blast
  have b: "title (chats (fold updateCurrentChatMessages [[user_msg (str ''A later message'') None]] ?s2) ! 0)
           = title (chats ?s2 ! 0)"
    using C4_title_derivation [OF h3(1)] h3(2) by blast
  have c: "take 20 (mtext ?m) @ (if 20 < length (mtext ?m) then str ''...'' else [])
           = str ''Plan my essay on mem...''"
    by (simp add: user_msg_def str_def)
  have d: "title (chats ?s2 ! 0) = str ''Hi''" by simp
  from a b c d show ?thesis by simp
qed

section \<open>Focus timer\<close>

text \<open>
  The component \<^verbatim>\<open>PomodoroTimer\<close> (lines 705-746). The effect of lines 712-723 runs
  after every render in which one of the five cells changed. While the timer is active
  with time left it arms a one-second interval whose callback decrements \<^verbatim>\<open>timeLeft\<close>
  (\<open>interval_tick\<close>; not armed, it does not fire); when \<^verbatim>\<open>timeLeft\<close> is 0 it sets
  \<^verbatim>\<open>isActive\<close> to false, flips the mode and reloads the countdown (\<open>timer_effect\<close>).
  One second of running time is one tick followed by the effect of the render it causes.
\<close>

datatype mode = Focus | Break

record timer =
  focusMinutes :: int
  breakMinutes :: int
  timeLeft :: int
  isActive :: bool
  mode :: mode

definition initial_timer :: timer where
  "initial_timer =
     \<lparr>focusMinutes = 25, breakMinutes = 5, timeLeft = 25 * 60, isActive = False, mode = Focus\<rparr>"

definition interval_tick :: "timer \<Rightarrow> timer" where
  "interval_tick s = (if isActive s \<and> 0 < timeLeft s then s\<lparr>timeLeft := timeLeft s - 1\<rparr> else s)"

definition timer_effect :: "timer \<Rightarrow> timer" where
  "timer_effect s =
     (if isActive s \<and> 0 < timeLeft s then s
      else if timeLeft s = 0 then
        (let nextMode = (if mode s = Focus then Break else Focus)
         in s\<lparr>isActive := False, mode := nextMode,
              timeLeft := (if nextMode = Focus then focusMinutes s else breakMinutes s) * 60\<rparr>)
      else s)"

definition one_second :: "timer \<Rightarrow> timer" where
  "one_second s = timer_effect (interval_tick s)"

text \<open>Line 792, the Start/Pause button; lines 731-746; the mode buttons of lines 752 and 758.\<close>

definition toggle :: "timer \<Rightarrow> timer" where
  "toggle s = timer_effect (s\<lparr>isActive := \<not> isActive s\<rparr>)"

definition handleReset :: "timer \<Rightarrow> timer" where
  "handleReset s =
     timer_effect (s\<lparr>isActive := False,
                     timeLeft := (if mode s = Focus then focusMinutes s else breakMinutes s) * 60\<rparr>)"

definition selectMode :: "mode \<Rightarrow> timer \<Rightarrow> timer" where
  "selectMode m s =
     timer_effect (s\<lparr>mode := m, timeLeft := (if m = Focus then focusMinutes s else breakMinutes s) * 60,
                     isActive := False\<rparr>)"

definition updateFocus :: "int \<Rightarrow> timer \<Rightarrow> timer" where
  "updateFocus val s =
     (let newMin = max 1 (focusMinutes s + val);
          s1 = s\<lparr>focusMinutes := newMin\<rparr>
      in timer_effect (if \<not> isActive s \<and> mode s = Focus then s1\<lparr>timeLeft := newMin * 60\<rparr> else s1))"

definition updateBreak :: "int \<Rightarrow> timer \<Rightarrow> timer" where
  "updateBreak val s =
     (let newMin = max 1 (breakMinutes s + val);
          s1 = s\<lparr>breakMinutes := newMin\<rparr>
      in timer_effect (if \<not> isActive s \<and> mode s = Break then s1\<lparr>timeLeft := newMin * 60\<rparr> else s1))"

subsection \<open>Facts about the timer\<close>

lemma one_second_running:
  "isActive s \<Longrightarrow> 1 < timeLeft s \<Longrightarrow> one_second s = s\<lparr>timeLeft := timeLeft s - 1\<rparr>"
  by (simp add: one_second_def interval_tick_def timer_effect_def)

lemma one_second_expiry:
  "isActive s \<Longrightarrow> timeLeft s = 1 \<Longrightarrow>
   one_second s = s\<lparr>isActive := False, mode := (if mode s = Focus then Break else Focus),
      timeLeft := (if mode s = Focus then breakMinutes s else focusMinutes s) * 60\<rparr>"
  by (simp add: one_second_def interval_tick_def timer_effect_def Let_def)

lemma timer_countdown:
  "isActive s \<Longrightarrow> int n < timeLeft s \<Longrightarrow> (one_second ^^ n) s = s\<lparr>timeLeft := timeLeft s - int n\<rparr>"
proof (induction n)
  case 0
  show ?case by simp
next
  case (Suc n)
  then have ih: "(one_second ^^ n) s = s\<lparr>timeLeft := timeLeft s - int n\<rparr>" by simp
  have "one_second (s\<lparr>timeLeft := timeLeft s - int n\<rparr>)
        = s\<lparr>timeLeft := timeLeft s - int n\<rparr>\<lparr>timeLeft := timeLeft (s\<lparr>timeLeft := timeLeft s - int n\<rparr>) - 1\<rparr>"
    using Suc.prems by (intro one_second_running) simp_all
  with ih show ?case by (simp add: algebra_simps)
qed

lemma timer_expiry:
  assumes "isActive s" "0 < timeLeft s"
  shows "(one_second ^^ nat (timeLeft s)) s =
    s\<lparr>isActive := False, mode := (if mode s = Focus then Break else Focus),
      timeLeft := (if mode s = Focus then breakMinutes s else focusMinutes s) * 60\<rparr>"
proof -
  obtain n where n: "nat (timeLeft s) = Suc n" using assms(2) by (cases "nat (timeLeft s)") auto
  then have tl: "timeLeft s = int n + 1" using assms(2) by linarith
  have c: "(one_second ^^ n) s = s\<lparr>timeLeft := timeLeft s - int n\<rparr>"
    using assms(1) tl by (intro timer_countdown) simp_all
  have "one_second (s\<lparr>timeLeft := timeLeft s - int n\<rparr>) =
     s\<lparr>isActive := False, mode := (if mode s = Focus then Break else Focus),
      timeLeft := (if mode s = Focus then breakMinutes s else focusMinutes s) * 60\<rparr>"
    using assms(1) tl by (subst one_second_expiry) simp_all
  with c show ?thesis unfolding n by simp
qed

lemma timer_spec_example:
  "(one_second ^^ 1500) (toggle initial_timer)
   = \<lparr>focusMinutes = 25, breakMinutes = 5, timeLeft = 300, isActive = False, mode = Break\<rparr>"
proof -
  let ?s = "toggle initial_timer"
  have s: "?s = \<lparr>focusMinutes = 25, breakMinutes = 5, timeLeft = 1500, isActive = True, mode = Focus\<rparr>"
    by (simp add: toggle_def initial_timer_def timer_effect_def)
  have "(one_second ^^ nat (timeLeft ?s)) ?s
        = \<lparr>focusMinutes = 25, breakMinutes = 5, timeLeft = 300, isActive = False, mode = Break\<rparr>"
    by (subst timer_expiry) (simp_all add: s)
  moreover have "nat (timeLeft ?s) = 1500" by (simp add: s)
  ultimately show ?thesis by simp
qed

subsection \<open>C3: expiry of the countdown\<close>

text \<open>
  C3 (as the claim states it, refuted). Starting Focus at 25 minutes and letting 1500
  seconds pass, the claim says the timer is still running. The effect's expiry branch
  begins with \<^verbatim>\<open>setIsActive(false)\<close> (line 717): the timer has stopped.
\<close>

theorem C3_timer_stops_counterexample:
  "isActive ((one_second ^^ 1500) (toggle initial_timer)) = False"
  by (simp add: timer_spec_example)

text \<open>
  C3 (amended). For the timer in either mode with the run state active and time left,
  when the countdown reaches zero (after as many seconds as were left) the mode flips to
  the other mode, the countdown reloads to the flipped-to mode's configured duration, the
  configured durations are unchanged, and the run state is inactive: the timer waits for
  the user to start the next period. Starting Focus at 25 minutes, after 1500 one-second
  ticks the mode is Rest, the countdown is the configured Rest duration (300 seconds) and
  the timer is not running.
\<close>

theorem C3_expiry_flips_and_stops:
  assumes "isActive s" and "0 < timeLeft s"
  shows "(one_second ^^ nat (timeLeft s)) s
           = s\<lparr>isActive := False, mode := (if mode s = Focus then Break else Focus),
               timeLeft := (if mode s = Focus then breakMinutes s else focusMinutes s) * 60\<rparr>
         \<and> (one_second ^^ 1500) (toggle initial_timer)
           = \<lparr>focusMinutes = 25, breakMinutes = 5, timeLeft = 300, isActive = False, mode = Break\<rparr>"
  using timer_expiry [OF assms] timer_spec_example by simp

theorem C3_expiry_flips_and_stops_witness:
  "isActive (toggle initial_timer) \<and> 0 < timeLeft (toggle initial_timer)
   \<and> (one_second ^^ nat (timeLeft (toggle initial_timer))) (toggle initial_timer)
       = \<lparr>focusMinutes = 25, breakMinutes = 5, timeLeft = 300, isActive = False, mode = Break\<rparr>"
proof -
  have s: "toggle initial_timer
           = \<lparr>focusMinutes = 25, breakMinutes = 5, timeLeft = 1500, isActive = True, mode = Focus\<rparr>"
    by (simp add: toggle_def initial_timer_def timer_effect_def)
  have h: "isActive (toggle initial_timer)" "0 < timeLeft (toggle initial_timer)"
    by (simp_all add: s)
  from C3_expiry_flips_and_stops [OF h] h show ?thesis by (simp add: s)
qed

section \<open>Suggestion directive\<close>

text \<open>
  Lines 258-264. The regular expression \<^verbatim>\<open>/\[SUGGESTIONS: (.*?)\]/\<close> is searched from the
  left. At a start position the literal \<^verbatim>\<open>[SUGGESTIONS: \<close> must follow; then the lazy group
  takes code units one at a time until the first \<^verbatim>\<open>]\<close>, and fails on a line terminator,
  which \<^verbatim>\<open>.\<close> does not match, or at the end of the text (\<open>lazy_payload\<close>).
  \<open>regex_exec\<close> returns the text before the match, the captured payload and the text
  after the match. \<^verbatim>\<open>replace\<close> with the same pattern removes that same first match.
  The block reads and writes \<^verbatim>\<open>aiText\<close> and writes the \<^verbatim>\<open>suggestions\<close> cell only when
  there is a match; \<open>parse_suggestions\<close> takes both and returns both.
\<close>

definition DIRECTIVE_OPEN :: jsstring where
  "DIRECTIVE_OPEN = str ''[SUGGESTIONS: ''"

fun lazy_payload :: "jsstring \<Rightarrow> (jsstring \<times> jsstring) option" where
  "lazy_payload [] = None"
| "lazy_payload (c # s) =
     (if c = 0x5D then Some ([], s)
      else if is_line_terminator c then None
      else (case lazy_payload s of
              None \<Rightarrow> None
            | Some (p, r) \<Rightarrow> Some (c # p, r)))"

definition match_here :: "jsstring \<Rightarrow> (jsstring \<times> jsstring) option" where
  "match_here s =
     (if startsWith s DIRECTIVE_OPEN then lazy_payload (drop (length DIRECTIVE_OPEN) s) else None)"

fun regex_exec :: "jsstring \<Rightarrow> (jsstring \<times> jsstring \<times> jsstring) option" where
  "regex_exec [] = None"
| "regex_exec (c # s) =
     (case match_here (c # s) of
        Some (p, r) \<Rightarrow> Some ([], p, r)
      | None \<Rightarrow> (case regex_exec s of
                   None \<Rightarrow> None
                 | Some (b, p, r) \<Rightarrow> Some (c # b, p, r)))"

definition parse_suggestions :: "jsstring \<Rightarrow> jsstring list \<Rightarrow> jsstring \<times> jsstring list" where
  "parse_suggestions aiText sugg =
     (case regex_exec aiText of
        None \<Rightarrow> (aiText, sugg)
      | Some (b, p, a) \<Rightarrow> (trim (b @ a), map trim (split_on 0x2C p)))"

subsection \<open>Facts about the parser\<close>

lemma lazy_payload_sound:
  "lazy_payload s = Some (p, r) \<Longrightarrow>
   s = p @ 0x5D # r \<and> 0x5D \<notin> set p \<and> (\<forall>c \<in> set p. \<not> is_line_terminator c)"
  by (induction s arbitrary: p) (auto split: if_splits option.splits)

lemma lazy_payload_complete:
  "\<forall>c \<in> set p. \<not> is_line_terminator c \<Longrightarrow> lazy_payload (p @ 0x5D # r) \<noteq> None"
  by (induction p) (auto split: option.splits)

lemma lazy_payload_no_bracket: "0x5D \<notin> set s \<Longrightarrow> lazy_payload s = None"
  by (induction s) auto

lemma match_here_sound:
  assumes "match_here s = Some (p, r)"
  shows "s = DIRECTIVE_OPEN @ p @ 0x5D # r \<and> 0x5D \<notin> set p \<and> (\<forall>c \<in> set p. \<not> is_line_terminator c)"
proof -
  from assms have sw: "startsWith s DIRECTIVE_OPEN"
    and lp: "lazy_payload (drop (length DIRECTIVE_OPEN) s) = Some (p, r)"
    by (auto simp: match_here_def split: if_splits)
  from sw obtain post where s: "s = DIRECTIVE_OPEN @ post" by (auto simp: startsWith_iff)
  with lp have "lazy_payload post = Some (p, r)" by simp
  from lazy_payload_sound[OF this] s show ?thesis by simp
qed

lemma match_here_complete:
  "\<forall>c \<in> set p. \<not> is_line_terminator c \<Longrightarrow> match_here (DIRECTIVE_OPEN @ p @ 0x5D # r) \<noteq> None"
  using lazy_payload_complete[of p r] by (auto simp: match_here_def startsWith_iff)

lemma regex_exec_sound:
  "regex_exec s = Some (b, p, a) \<Longrightarrow>
   s = b @ DIRECTIVE_OPEN @ p @ 0x5D # a \<and> 0x5D \<notin> set p \<and> (\<forall>c \<in> set p. \<not> is_line_terminator c)"
proof (induction s arbitrary: b)
  case Nil
  then show ?case by simp
next
  case (Cons c s)
  show ?case
  proof (cases "match_here (c # s)")
    case (Some pr)
    with Cons.prems have "match_here (c # s) = Some (p, a)" "b = []"
      by (auto split: prod.splits)
    with match_here_sound[of "c # s" p a] show ?thesis by simp
  next
    case None
    with Cons.prems obtain b' where "regex_exec s = Some (b', p, a)" "b = c # b'"
      by (auto split: option.splits)
    with Cons.IH[of b'] show ?thesis by simp
  qed
qed

lemma regex_exec_complete:
  "\<forall>c \<in> set p. \<not> is_line_terminator c \<Longrightarrow> regex_exec (b @ DIRECTIVE_OPEN @ p @ 0x5D # a) \<noteq> None"
proof (induction b)
  case Nil
  have ne: "DIRECTIVE_OPEN @ p @ 0x5D # a \<noteq> []" by (simp add: DIRECTIVE_OPEN_def str_def)
  then obtain c s where cs: "DIRECTIVE_OPEN @ p @ 0x5D # a = c # s"
    by (cases "DIRECTIVE_OPEN @ p @ 0x5D # a") auto
  from match_here_complete[OF Nil, of a] cs have "match_here (c # s) \<noteq> None" by simp
  then have "regex_exec (c # s) \<noteq> None" by (auto split: option.splits)
  with cs show ?case by simp
next
  case (Cons c b)
  then show ?case by (auto split: option.splits)
qed

lemma regex_exec_None_iff:
  "regex_exec s = None \<longleftrightarrow>
   \<not> (\<exists>b p a. s = b @ DIRECTIVE_OPEN @ p @ 0x5D # a \<and> (\<forall>c \<in> set p. \<not> is_line_terminator c))"
proof
  assume "regex_exec s = None"
  then show "\<not> (\<exists>b p a. s = b @ DIRECTIVE_OPEN @ p @ 0x5D # a \<and> (\<forall>c \<in> set p. \<not> is_line_terminator c))"
    using regex_exec_complete by metis
next
  assume n: "\<not> (\<exists>b p a. s = b @ DIRECTIVE_OPEN @ p @ 0x5D # a \<and> (\<forall>c \<in> set p. \<not> is_line_terminator c))"
  show "regex_exec s = None"
  proof (rule ccontr)
    assume "regex_exec s \<noteq> None"
    then obtain b p a where "regex_exec s = Some (b, p, a)" by auto
    from regex_exec_sound[OF this] n show False by blast
  qed
qed

lemma split_on_ne [simp]: "split_on sep s \<noteq> []"
  by (induction s) (auto split: list.splits)





lemma trim_Nil [simp]: "trim [] = []"
  by (simp add: trim_def)



lemma close_bracket: "str '']'' = [0x5D]"
  by (simp add: str_def)

lemma parse_no_match: "regex_exec raw = None \<Longrightarrow> parse_suggestions raw sugg = (raw, sugg)"
  by (simp add: parse_suggestions_def)

lemma regex_exec_no_bracket: "0x5D \<notin> set raw \<Longrightarrow> regex_exec raw = None"
  by (auto simp: regex_exec_None_iff)

lemma regex_exec_no_open: "\<not> includes_str raw DIRECTIVE_OPEN \<Longrightarrow> regex_exec raw = None"
  by (auto simp: regex_exec_None_iff includes_str_iff)


lemma parse_plain_example:
  "parse_suggestions (str ''Just a normal reply, no directive here.'') []
   = (str ''Just a normal reply, no directive here.'', [])"
  by code_simp







lemma plain_no_match: "regex_exec (str ''Just a normal reply, no directive here.'') = None"
  by code_simp

lemma unclosed_example:
  "0x5D \<notin> set (str ''Try this [SUGGESTIONS: Make a plan, Take a break'')"
  "includes_str (str ''Try this [SUGGESTIONS: Make a plan, Take a break'') DIRECTIVE_OPEN"
  "\<not> includes_str (str ''All good [ok]'') DIRECTIVE_OPEN"
  by code_simp+

subsection \<open>C5: the chips of a directive\<close>




section \<open>Conversation controller\<close>

text \<open>
  Lines 200-321. \<^verbatim>\<open>handleSendMessage\<close> and \<^verbatim>\<open>generateStudyPlan\<close> are \<^verbatim>\<open>async\<close>:
  each runs up to its \<^verbatim>\<open>await\<close> when the user submits, and the rest runs when the
  remote call is answered. The first part is the function of the same name here, which
  adds the call to \<open>pending\<close>; the second part is \<open>resolve_chat\<close> or
  \<open>resolve_plan\<close>, applied by \<open>resolve\<close> to one pending call and its answer. An answer
  is a reply, whose \<^verbatim>\<open>text\<close> may be undefined, or a rejection.
\<close>

definition CRISIS_TEXT :: jsstring where
  "CRISIS_TEXT =
     str ''I'm really concerned about what you're saying. Please know that you're not alone and there is support available. ''
     @ [0x0A, 0x0A] @ str ''**Immediate Help:**'' @ [0x0A]
     @ str ''- Contact your school counselor immediately.'' @ [0x0A]
     @ str ''- International: [Befrienders Worldwide](https://www.befrienders.org/)'' @ [0x0A]
     @ str ''- Crisis Text Line: Text HOME to 741741'' @ [0x0A, 0x0A]
     @ str ''Please reach out to a trusted adult or professional right now.''"

definition crisisMsg :: Message where
  "crisisMsg = \<lparr>role = Model, mtext = CRISIS_TEXT, mtype = Some CrisisMsg, attachment = None\<rparr>"

definition FALLBACK_NO_TEXT :: jsstring where
  "FALLBACK_NO_TEXT =
     str ''I'm here for you, but I'm having a little trouble connecting. Could you try saying that again?''"

definition FALLBACK_STUCK :: jsstring where
  "FALLBACK_STUCK =
     str ''I'm sorry, I'm feeling a bit stuck. Let's take a deep breath together. How else can I support you?''"

definition PLAN_NO_TEXT :: jsstring where
  "PLAN_NO_TEXT = str ''I couldn't generate a plan right now, but let's try breaking it down together.''"

definition PLAN_SNAG :: jsstring where
  "PLAN_SNAG = str ''I hit a snag. Let's try again in a moment.''"

definition plan_prompt :: "jsstring \<Rightarrow> jsstring" where
  "plan_prompt task =
     str ''Generate a 3-step study plan for this MYP task: '' @ [0x22] @ task @ [0x22] @ str ''. ''
     @ [0x0A] @ str ''    Use the checklist format:''
     @ [0x0A] @ str ''    [ ] Step 1: ...''
     @ [0x0A] @ str ''    [ ] Step 2: ...''
     @ [0x0A] @ str ''    [ ] Step 3: ...''
     @ [0x0A] @ str ''    Make it actionable and supportive.''"

definition inline_data :: "Attachment option \<Rightarrow> (jsstring \<times> jsstring) option" where
  "inline_data a = map_option (\<lambda>f. (data f, mimeType f)) a"

definition request_contents ::
  "Message list \<Rightarrow> (role \<times> jsstring \<times> (jsstring \<times> jsstring) option) list" where
  "request_contents ms = map (\<lambda>m. (role m, mtext m, inline_data (attachment m))) ms"

text \<open>
  Lines 200-232 and 235-254. The argument is the text passed by a chip click; without it,
  or when it is not a string (the form passes none), the input box is read.
\<close>

definition handleSendMessage :: "jsstring option \<Rightarrow> app \<Rightarrow> app" where
  "handleSendMessage arg s =
     (let messageText = (case arg of Some t \<Rightarrow> t | None \<Rightarrow> input_text s) in
      if trim messageText = [] \<and> attachedFile s = None then s
      else
        let userMessage = user_msg messageText (attachedFile s);
            updatedMessages = current_messages s @ [userMessage];
            s1 = (updateCurrentChatMessages updatedMessages s)
                   \<lparr>input_text := [], attachedFile := None, suggestions := [], isLoading := True\<rparr>
        in if detect messageText
           then (updateCurrentChatMessages (updatedMessages @ [crisisMsg]) s1)\<lparr>isLoading := False\<rparr>
           else s1\<lparr>pending := pending s1 @
                  [\<lparr>turn = ChatTurn, target = currentChatId s, snapshot = updatedMessages,
                    contents = request_contents updatedMessages\<rparr>]\<rparr>)"

text \<open>Lines 279-313, up to the call.\<close>

definition generateStudyPlan :: "jsstring \<Rightarrow> Attachment option \<Rightarrow> app \<Rightarrow> app" where
  "generateStudyPlan task att s =
     (let userMsg = user_msg (str ''Help me plan for: '' @ task) att;
          updatedMessages = current_messages s @ [userMsg];
          s1 = updateCurrentChatMessages updatedMessages (s\<lparr>isLoading := True, activeTool := NoTool\<rparr>)
      in s1\<lparr>pending := pending s1 @
             [\<lparr>turn = PlanTurn, target = currentChatId s, snapshot = updatedMessages,
               contents = [(User, plan_prompt task, inline_data att)]\<rparr>]\<rparr>)"

text \<open>
  Lines 256-264: the fallback for a reply without text (\<^verbatim>\<open>response.text || "..."\<close>: an
  undefined and an empty text are both falsy), then the directive block.
\<close>

definition reply_text :: "jsstring option \<Rightarrow> jsstring list \<Rightarrow> jsstring \<times> jsstring list" where
  "reply_text t sugg =
     (let aiText = (case t of None \<Rightarrow> FALLBACK_NO_TEXT
                    | Some x \<Rightarrow> if x = [] then FALLBACK_NO_TEXT else x)
      in parse_suggestions aiText sugg)"

text \<open>Lines 256-272 and 314-320: the rest of a turn, run when its call is answered.\<close>

definition resolve_chat :: "request \<Rightarrow> response \<Rightarrow> app \<Rightarrow> app" where
  "resolve_chat q r s =
     (case r of
        Reply t \<Rightarrow>
          (let (aiText, sugg) = reply_text t (suggestions s)
           in (updateChatMessages (target q) (snapshot q @ [model_msg aiText])
                 (s\<lparr>suggestions := sugg\<rparr>))\<lparr>isLoading := False\<rparr>)
      | Rejected \<Rightarrow>
          (updateChatMessages (target q) (snapshot q @ [model_msg FALLBACK_STUCK]) s)
            \<lparr>isLoading := False\<rparr>)"

definition resolve_plan :: "request \<Rightarrow> response \<Rightarrow> app \<Rightarrow> app" where
  "resolve_plan q r s =
     (case r of
        Reply t \<Rightarrow>
          (updateChatMessages (target q)
             (snapshot q @ [model_msg (case t of None \<Rightarrow> PLAN_NO_TEXT
                                        | Some x \<Rightarrow> if x = [] then PLAN_NO_TEXT else x)]) s)
            \<lparr>isLoading := False, attachedFile := None\<rparr>
      | Rejected \<Rightarrow>
          (updateChatMessages (target q) (snapshot q @ [model_msg PLAN_SNAG]) s)
            \<lparr>isLoading := False, attachedFile := None\<rparr>)"

definition resolve :: "nat \<Rightarrow> response \<Rightarrow> app \<Rightarrow> app" where
  "resolve k r s =
     (if k < length (pending s) then
        (let q = pending s ! k;
             s0 = s\<lparr>pending := take k (pending s) @ drop (Suc k) (pending s)\<rparr>
         in case turn q of ChatTurn \<Rightarrow> resolve_chat q r s0 | PlanTurn \<Rightarrow> resolve_plan q r s0)
      else s)"

text \<open>
  What the user can do to submit (lines 557-566, 600-640, 944-950). The send button is
  disabled while \<^verbatim>\<open>isLoading\<close> holds or when there is nothing to send; a disabled button
  submits nothing. The Enter key in the text box calls \<^verbatim>\<open>handleSendMessage\<close> directly
  (lines 610-615). A chip is one of the suggestions in the \<^verbatim>\<open>suggestions\<close> cell. The plan
  form's button is there while the study-plan tool is open, and is disabled only when the
  task is blank and no file is staged. \<open>clickChip\<close> and \<open>clickGenerate\<close> are clicks
  on what the current state displays; a chip or a plan form that has been removed from the
  state and is still on screen while it animates out can be clicked too, and such a click
  calls the same two handlers: it is one more way to submit, not modelled by these two.
\<close>

definition setInput :: "jsstring \<Rightarrow> app \<Rightarrow> app" where
  "setInput t s = s\<lparr>input_text := t\<rparr>"

definition setActiveTool :: "tool \<Rightarrow> app \<Rightarrow> app" where
  "setActiveTool t s = s\<lparr>activeTool := t\<rparr>"

definition sendDisabled :: "app \<Rightarrow> bool" where
  "sendDisabled s = ((trim (input_text s) = [] \<and> attachedFile s = None) \<or> isLoading s)"

definition clickSend :: "app \<Rightarrow> app" where
  "clickSend s = (if sendDisabled s then s else handleSendMessage None s)"

definition pressEnter :: "app \<Rightarrow> app" where
  "pressEnter s = handleSendMessage None s"

definition clickChip :: "nat \<Rightarrow> app \<Rightarrow> app" where
  "clickChip k s =
     (if k < length (suggestions s) then handleSendMessage (Some (suggestions s ! k)) s else s)"

definition clickGenerate :: "jsstring \<Rightarrow> app \<Rightarrow> app" where
  "clickGenerate task s =
     (if activeTool s = StudyPlanTool \<and> \<not> (trim task = [] \<and> attachedFile s = None)
      then generateStudyPlan task (attachedFile s) s else s)"

text \<open>Lines 454-457: the Clear Chat button.\<close>

definition clearChat :: "app \<Rightarrow> app" where
  "clearChat s = updateCurrentChatMessages [model_msg (str ''Chat cleared. How are you feeling now?'')] s"

text \<open>
  A request made right after a first message, and the same state after the user has opened
  a new session while the request is outstanding.
\<close>

definition first_send :: app where
  "first_send = pressEnter (setInput (str ''hello'') (initial_app 0))"

definition switched :: app where
  "switched = createNewChat 5 5 first_send"

text \<open>
  The frame of an update of the chats with target id \<open>cid\<close>: same number of chats, in the
  same order; every chat whose id is not \<open>cid\<close> is unchanged in all its fields; every
  chat keeps its id and its \<^verbatim>\<open>createdAt\<close>.
\<close>

definition frame_except :: "jsstring \<Rightarrow> Chat list \<Rightarrow> Chat list \<Rightarrow> bool" where
  "frame_except cid cs cs' =
     (length cs' = length cs
      \<and> (\<forall>i < length cs.
            (chat_id (cs ! i) \<noteq> cid \<longrightarrow> cs' ! i = cs ! i)
            \<and> chat_id (cs' ! i) = chat_id (cs ! i)
            \<and> createdAt (cs' ! i) = createdAt (cs ! i)))"

subsection \<open>Facts about the controller\<close>

lemma detect_hello: "\<not> detect (str ''hello'')" "\<not> detect (str ''again'')"
  by code_simp+

lemma trim_hello: "trim (str ''hello'') \<noteq> []" "trim (str ''again'') \<noteq> []" "trim (str ''essay'') \<noteq> []"
  by code_simp+

lemma first_send_eq:
  "first_send = \<lparr>chats = [\<lparr>chat_id = str ''1'', title = str ''hello'',
       messages = [model_msg WELCOME_FIRST, user_msg (str ''hello'') None], createdAt = 0\<rparr>],
     currentChatId = str ''1'', input_text = [],
      isLoading = True, activeTool = NoTool, attachedFile = None, suggestions = [],
      pending = [\<lparr>turn = ChatTurn, target = str ''1'',
         snapshot = [model_msg WELCOME_FIRST, user_msg (str ''hello'') None],
         contents = [(Model, WELCOME_FIRST, None), (User, str ''hello'', None)]\<rparr>]\<rparr>"
  unfolding first_send_def
  apply (simp add: pressEnter_def setInput_def handleSendMessage_def initial_app_def initialChat_def
      detect_hello trim_hello Let_def current_messages_def currentChat_def
      updateCurrentChatMessages_def updateChatMessages_def update_chat_def request_contents_def inline_data_def)
  apply (simp add: user_msg_def model_msg_def str_def)
  done

lemma new_chat_neq: "str ''hello'' \<noteq> str ''New Chat''"
  by (simp add: str_def)

lemma second_enter:
  "pressEnter (setInput (str ''again'') first_send)
   = first_send\<lparr>chats := [\<lparr>chat_id = str ''1'', title = str ''hello'',
         messages = [model_msg WELCOME_FIRST, user_msg (str ''hello'') None, user_msg (str ''again'') None],
         createdAt = 0\<rparr>],
       pending := pending first_send @ [\<lparr>turn = ChatTurn, target = str ''1'',
         snapshot = [model_msg WELCOME_FIRST, user_msg (str ''hello'') None, user_msg (str ''again'') None],
         contents = [(Model, WELCOME_FIRST, None), (User, str ''hello'', None), (User, str ''again'', None)]\<rparr>]\<rparr>"
  apply (simp add: first_send_eq pressEnter_def setInput_def handleSendMessage_def
      detect_hello trim_hello Let_def current_messages_def currentChat_def new_chat_neq
      updateCurrentChatMessages_def updateChatMessages_def update_chat_def request_contents_def inline_data_def)
  apply (simp add: user_msg_def model_msg_def)
  done

lemma plan_while_sending:
  "length (pending (clickGenerate (str ''essay'') (setActiveTool StudyPlanTool first_send))) = 2"
  by (simp add: first_send_eq clickGenerate_def setActiveTool_def generateStudyPlan_def trim_hello
      Let_def updateCurrentChatMessages_def updateChatMessages_def)

lemma button_while_sending:
  "clickSend (setInput (str ''again'') first_send) = setInput (str ''again'') first_send"
  by (simp add: first_send_eq clickSend_def sendDisabled_def setInput_def)

lemma fallback_no_match: "regex_exec FALLBACK_NO_TEXT = None"
  by code_simp

lemma fallback_nonempty: "FALLBACK_NO_TEXT \<noteq> []"
  by (simp add: FALLBACK_NO_TEXT_def str_def)

lemma reply_text_no_text:
  "t = None \<or> t = Some [] \<Longrightarrow> reply_text t sugg = (FALLBACK_NO_TEXT, sugg)"
  by (auto simp: reply_text_def parse_suggestions_def fallback_no_match)

lemma reply_text_plain:
  "x \<noteq> [] \<Longrightarrow> regex_exec x = None \<Longrightarrow> reply_text (Some x) sugg = (x, sugg)"
  by (simp add: reply_text_def parse_suggestions_def)

lemma reply_text_empty_iff:
  "fst (reply_text t sugg) = [] \<longleftrightarrow>
   (\<exists>x b p a. t = Some x \<and> regex_exec x = Some (b, p, a) \<and> trim (b @ a) = [])"
proof (cases t)
  case None
  then show ?thesis by (simp add: reply_text_no_text fallback_nonempty)
next
  case (Some x)
  show ?thesis
  proof (cases "x = []")
    case True
    with Some show ?thesis by (simp add: reply_text_no_text fallback_nonempty)
  next
    case False
    with Some show ?thesis
      by (cases "regex_exec x") (auto simp: reply_text_def parse_suggestions_def)
  qed
qed

lemma resolve_chat_chats:
  "k < length (pending s) \<Longrightarrow> turn (pending s ! k) = ChatTurn \<Longrightarrow>
   chats (resolve k (Reply t) s)
   = map (update_chat (target (pending s ! k))
            (snapshot (pending s ! k) @ [model_msg (fst (reply_text t (suggestions s)))]))
       (chats s)"
  by (simp add: resolve_def resolve_chat_def Let_def updateChatMessages_def split: prod.splits)

lemma directive_only:
  "reply_text (Some (str ''[SUGGESTIONS: Make a plan, Take a break]'')) []
   = ([], [str ''Make a plan'', str ''Take a break''])"
  by code_simp

lemma plain_reply_no_match: "regex_exec (str ''Take one step at a time.'') = None"
  by code_simp

lemma frame_except_refl: "frame_except cid cs cs"
  by (simp add: frame_except_def)

lemma frame_except_trans:
  "frame_except cid a b \<Longrightarrow> frame_except cid b c \<Longrightarrow> frame_except cid a c"
  by (auto simp: frame_except_def)

lemma frame_updateChatMessages:
  "frame_except cid (chats s) (chats (updateChatMessages cid ms s))"
  by (simp add: frame_except_def updateChatMessages_def update_chat_other)

lemma frame_updateCurrent:
  "frame_except (currentChatId s) (chats s) (chats (updateCurrentChatMessages ms s))"
  by (simp add: updateCurrentChatMessages_def frame_updateChatMessages)

lemma chats_cells [simp]:
  "chats (s\<lparr>input_text := a\<rparr>) = chats s"
  "chats (s\<lparr>isLoading := b\<rparr>) = chats s"
  by simp_all

lemma frame_handleSendMessage:
  "frame_except (currentChatId s) (chats s) (chats (handleSendMessage arg s))"
proof -
  let ?t = "case arg of Some t \<Rightarrow> t | None \<Rightarrow> input_text s"
  let ?u = "current_messages s @ [user_msg ?t (attachedFile s)]"
  let ?s1 = "updateCurrentChatMessages ?u s"
  have 1: "frame_except (currentChatId s) (chats s) (chats ?s1)"
    by (rule frame_updateCurrent)
  have "frame_except (currentChatId ?s1) (chats ?s1)
          (chats (updateChatMessages (currentChatId ?s1) (?u @ [crisisMsg]) ?s1))"
    by (rule frame_updateChatMessages)
  then have 2: "frame_except (currentChatId s) (chats ?s1)
          (chats (updateChatMessages (currentChatId s) (?u @ [crisisMsg]) ?s1))"
    by simp
  have 3: "frame_except (currentChatId s) (chats s)
          (chats (updateChatMessages (currentChatId s) (?u @ [crisisMsg]) ?s1))"
    using 1 2 by (rule frame_except_trans)
  have c: "chats (updateChatMessages (currentChatId s) (?u @ [crisisMsg])
              (?s1\<lparr>input_text := [], attachedFile := None, suggestions := [], isLoading := True\<rparr>))
           = chats (updateChatMessages (currentChatId s) (?u @ [crisisMsg]) ?s1)"
    by (simp add: updateChatMessages_def)
  show ?thesis
    using 1 3 c
    by (simp add: handleSendMessage_def Let_def frame_except_refl updateCurrentChatMessages_def
        updateChatMessages_def)
qed

lemma frame_generateStudyPlan:
  "frame_except (currentChatId s) (chats s) (chats (generateStudyPlan task att s))"
  using frame_updateChatMessages [of "currentChatId s" s]
  by (simp add: generateStudyPlan_def Let_def updateCurrentChatMessages_def updateChatMessages_def)

lemma frame_clearChat:
  "frame_except (currentChatId s) (chats s) (chats (clearChat s))"
  by (simp add: clearChat_def frame_updateCurrent)

lemma frame_resolve:
  "k < length (pending s) \<Longrightarrow>
   frame_except (target (pending s ! k)) (chats s) (chats (resolve k r s))"
  using frame_updateChatMessages [of "target (pending s ! k)" s]
  by (simp add: resolve_def Let_def resolve_chat_def resolve_plan_def updateChatMessages_def
      split: turn.splits response.splits prod.splits)

lemma sent_target:
  "pending (handleSendMessage arg s) = pending s
   \<or> (\<exists>q. pending (handleSendMessage arg s) = pending s @ [q] \<and> target q = currentChatId s)"
  by (simp add: handleSendMessage_def Let_def updateCurrentChatMessages_def updateChatMessages_def)

lemma plan_target:
  "\<exists>q. pending (generateStudyPlan task att s) = pending s @ [q] \<and> target q = currentChatId s"
  by (simp add: generateStudyPlan_def Let_def updateCurrentChatMessages_def updateChatMessages_def)

lemma toString_5: "toString 5 = str ''5''"
  by (simp add: toString_def str_def)

lemma ids_5: "str ''5'' \<noteq> str ''1''" "str ''1'' \<noteq> str ''5''"
  by (simp_all add: str_def)

lemma switched_eq:
  "switched = first_send\<lparr>chats := \<lparr>chat_id = str ''5'', title = str ''New Chat'',
       messages = [model_msg WELCOME_NEW], createdAt = 5\<rparr> # chats first_send,
     currentChatId := str ''5''\<rparr>"
  by (simp add: switched_def createNewChat_def toString_5 Let_def)

lemma ok_reply: "reply_text (Some (str ''ok'')) [] = (str ''ok'', [])"
  by code_simp

lemma resolve_chat_suggestions:
  "k < length (pending s) \<Longrightarrow> turn (pending s ! k) = ChatTurn \<Longrightarrow>
   suggestions (resolve k (Reply t) s) = snd (reply_text t (suggestions s))"
  by (simp add: resolve_def resolve_chat_def Let_def updateChatMessages_def split: prod.splits)

lemma send_clears_suggestions:
  "handleSendMessage arg s = s \<or> suggestions (handleSendMessage arg s) = []"
  by (simp add: handleSendMessage_def Let_def updateCurrentChatMessages_def updateChatMessages_def)

lemma nested_example:
  "parse_suggestions (str ''A [SUGGESTIONS: a [b], c] d'') [] = (str ''A , c] d'', [str ''a [b''])"
  by code_simp

lemma unclosed_then_bracket_example:
  "parse_suggestions (str ''Plan: [SUGGESTIONS: Make a plan, Take a break. See [1] for more.'') []
   = (str ''Plan:  for more.'', [str ''Make a plan'', str ''Take a break. See [1''])"
  by code_simp

subsection \<open>C7: submits while a call is outstanding\<close>

text \<open>
  C7 (the code at the failing input). After a first message "hello" the controller is
  sending: \<^verbatim>\<open>isLoading\<close> holds and one call is outstanding. The send button is then
  disabled and no chip is displayed, so those two submits do nothing. But typing "again"
  and pressing Enter runs \<^verbatim>\<open>handleSendMessage\<close>, which never looks at \<^verbatim>\<open>isLoading\<close>:
  a second user message is appended and a second call is outstanding. The plan form's
  button does the same through \<^verbatim>\<open>generateStudyPlan\<close>.
\<close>

theorem C7_second_submit_not_rejected:
  "isLoading first_send \<and> length (pending first_send) = 1
   \<and> length (pending (pressEnter (setInput (str ''again'') first_send))) = 2
   \<and> map mtext (filter (\<lambda>m. role m = User)
        (current_messages (pressEnter (setInput (str ''again'') first_send))))
      = [str ''hello'', str ''again'']
   \<and> length (pending (clickGenerate (str ''essay'') (setActiveTool StudyPlanTool first_send))) = 2
   \<and> clickSend (setInput (str ''again'') first_send) = setInput (str ''again'') first_send
   \<and> clickChip k first_send = first_send"
proof -
  have a: "isLoading first_send \<and> length (pending first_send) = 1"
    by (simp add: first_send_eq)
  have b: "length (pending (pressEnter (setInput (str ''again'') first_send))) = 2"
    by (simp add: second_enter) (simp add: first_send_eq)
  have c: "map mtext (filter (\<lambda>m. role m = User)
        (current_messages (pressEnter (setInput (str ''again'') first_send))))
      = [str ''hello'', str ''again'']"
    by (simp add: second_enter) (simp add: first_send_eq current_messages_def currentChat_def
        user_msg_def model_msg_def)
  have d: "clickChip k first_send = first_send"
    by (simp add: clickChip_def first_send_eq)
  from a b c d plan_while_sending button_while_sending show ?thesis by blast
qed

subsection \<open>C8: a reply without text\<close>

text \<open>
  What holds of the text appended for a reply. For a reply without text (undefined or
  empty) it is the fixed fallback apology, which is not empty, and the suggestions are
  untouched; a reply with text and without a directive is appended as it is; the appended
  text is empty exactly when the reply contains a directive and nothing but white space
  around it.
\<close>

lemma fallback_on_empty_reply:
  "(t = None \<or> t = Some [] \<longrightarrow> reply_text t sugg = (FALLBACK_NO_TEXT, sugg))
   \<and> FALLBACK_NO_TEXT \<noteq> []
   \<and> (x \<noteq> [] \<and> regex_exec x = None \<longrightarrow> reply_text (Some x) sugg = (x, sugg))
   \<and> (fst (reply_text t sugg) = [] \<longleftrightarrow>
        (\<exists>x b p a. t = Some x \<and> regex_exec x = Some (b, p, a) \<and> trim (b @ a) = []))
   \<and> (k < length (pending s) \<and> turn (pending s ! k) = ChatTurn
        \<longrightarrow> chats (resolve k (Reply t) s)
            = map (update_chat (target (pending s ! k))
                     (snapshot (pending s ! k) @ [model_msg (fst (reply_text t (suggestions s)))]))
                (chats s))"
  using reply_text_no_text [of t sugg] fallback_nonempty reply_text_plain [of x sugg]
    reply_text_empty_iff [of t sugg] resolve_chat_chats [of k s t]
  by blast

text \<open>
  C8 (the code at the failing input). The reply \<^verbatim>\<open>[SUGGESTIONS: Make a plan, Take a break]\<close>
  is not empty, so the fallback of line 256 is not taken; line 263 then removes the
  directive and what is left is the empty string. The model message appended to the
  session has empty text. The claim says no model message with empty text is ever
  appended.
\<close>

theorem C8_directive_only_reply:
  "current_messages (resolve 0 (Reply (Some (str ''[SUGGESTIONS: Make a plan, Take a break]''))) first_send)
   = [model_msg WELCOME_FIRST, user_msg (str ''hello'') None, model_msg []]"
  by (simp add: first_send_eq resolve_def resolve_chat_def directive_only updateChatMessages_def
      update_chat_def new_chat_neq current_messages_def currentChat_def)

subsection \<open>C6: a reply without a directive\<close>

text \<open>
  C6 (as the claim states it, refuted). The claim says a malformed directive is treated as
  not found: the text comes back unchanged with no chips. A directive with nested brackets
  still contains the pattern, up to its first \<^verbatim>\<open>]\<close>: the text is cut and a chip is
  extracted. The same happens to a directive that is never closed when a \<^verbatim>\<open>]\<close> comes
  later on the same line.
\<close>

theorem C6_malformed_directive_counterexample:
  "parse_suggestions (str ''A [SUGGESTIONS: a [b], c] d'') [] = (str ''A , c] d'', [str ''a [b''])
   \<and> parse_suggestions (str ''A [SUGGESTIONS: a [b], c] d'') []
       \<noteq> (str ''A [SUGGESTIONS: a [b], c] d'', [])
   \<and> parse_suggestions (str ''Plan: [SUGGESTIONS: Make a plan, Take a break. See [1] for more.'') []
       = (str ''Plan:  for more.'', [str ''Make a plan'', str ''Take a break. See [1''])
   \<and> parse_suggestions (str ''Plan: [SUGGESTIONS: Make a plan, Take a break. See [1] for more.'') []
       \<noteq> (str ''Plan: [SUGGESTIONS: Make a plan, Take a break. See [1] for more.'', [])"
proof -
  have 1: "str ''A , c] d'' \<noteq> str ''A [SUGGESTIONS: a [b], c] d''"
    by (simp add: str_def)
  have 2: "str ''Plan:  for more.''
           \<noteq> str ''Plan: [SUGGESTIONS: Make a plan, Take a break. See [1] for more.''"
    by (simp add: str_def)
  show ?thesis
    unfolding nested_example unclosed_then_bracket_example using 1 2 by simp
qed

text \<open>
  C6 (amended). A reply in which the pattern does not occur, that is, one that is not of
  the form text, \<^verbatim>\<open>[SUGGESTIONS: \<close>, payload without line terminator, \<^verbatim>\<open>]\<close>, text, is
  returned unchanged and the suggestions are left as they are: empty when they were empty.
  That covers a reply with no closing bracket at all and a reply that does not contain
  \<^verbatim>\<open>[SUGGESTIONS: \<close>. On every reply the block returns a result of one of two shapes:
  the reply and the suggestions as they were, when the pattern does not occur, or else the
  trimmed rest and the trimmed pieces of the first occurrence. In a turn: a send that goes
  ahead empties the suggestions; when they are empty and the reply is not empty and is
  without the pattern, the model message appended has the reply as its text and the
  suggestions are still empty.
\<close>

theorem C6_pattern_absent_passthrough:
  "(\<not> (\<exists>b p a. raw = b @ DIRECTIVE_OPEN @ p @ str '']'' @ a \<and> (\<forall>c \<in> set p. \<not> is_line_terminator c))
      \<longrightarrow> parse_suggestions raw sugg = (raw, sugg) \<and> parse_suggestions raw [] = (raw, []))
   \<and> (0x5D \<notin> set raw \<longrightarrow> parse_suggestions raw sugg = (raw, sugg))
   \<and> (\<not> includes_str raw DIRECTIVE_OPEN \<longrightarrow> parse_suggestions raw sugg = (raw, sugg))
   \<and> ((regex_exec raw = None \<and> parse_suggestions raw sugg = (raw, sugg))
        \<or> (\<exists>b p a. raw = b @ DIRECTIVE_OPEN @ p @ str '']'' @ a
              \<and> parse_suggestions raw sugg = (trim (b @ a), map trim (split_on 0x2C p))))
   \<and> (handleSendMessage arg s = s \<or> suggestions (handleSendMessage arg s) = [])
   \<and> (k < length (pending s) \<and> turn (pending s ! k) = ChatTurn \<and> suggestions s = []
        \<and> raw \<noteq> []
        \<and> \<not> (\<exists>b p a. raw = b @ DIRECTIVE_OPEN @ p @ str '']'' @ a
                 \<and> (\<forall>c \<in> set p. \<not> is_line_terminator c))
        \<longrightarrow> suggestions (resolve k (Reply (Some raw)) s) = []
            \<and> chats (resolve k (Reply (Some raw)) s)
                = map (update_chat (target (pending s ! k))
                         (snapshot (pending s ! k) @ [model_msg raw]))
                    (chats s))
   \<and> parse_suggestions (str ''Just a normal reply, no directive here.'') []
      = (str ''Just a normal reply, no directive here.'', [])"
proof -
  let ?P = "\<exists>b p a. raw = b @ DIRECTIVE_OPEN @ p @ str '']'' @ a \<and> (\<forall>c \<in> set p. \<not> is_line_terminator c)"
  have n: "\<not> ?P \<Longrightarrow> regex_exec raw = None"
    using regex_exec_None_iff [of raw] by (simp add: close_bracket)
  have 1: "\<not> ?P \<longrightarrow> parse_suggestions raw sugg = (raw, sugg) \<and> parse_suggestions raw [] = (raw, [])"
    using n by (auto intro: parse_no_match)
  have 2: "0x5D \<notin> set raw \<longrightarrow> parse_suggestions raw sugg = (raw, sugg)"
    by (simp add: regex_exec_no_bracket parse_no_match)
  have 3: "\<not> includes_str raw DIRECTIVE_OPEN \<longrightarrow> parse_suggestions raw sugg = (raw, sugg)"
    by (simp add: regex_exec_no_open parse_no_match)
  have 4: "(regex_exec raw = None \<and> parse_suggestions raw sugg = (raw, sugg))
        \<or> (\<exists>b p a. raw = b @ DIRECTIVE_OPEN @ p @ str '']'' @ a
              \<and> parse_suggestions raw sugg = (trim (b @ a), map trim (split_on 0x2C p)))"
  proof (cases "regex_exec raw")
    case None
    then show ?thesis by (simp add: parse_no_match)
  next
    case (Some m)
    then obtain b p a where m: "regex_exec raw = Some (b, p, a)" by (cases m) auto
    from regex_exec_sound [OF m] have "raw = b @ DIRECTIVE_OPEN @ p @ str '']'' @ a"
      by (simp add: close_bracket)
    moreover from m have "parse_suggestions raw sugg = (trim (b @ a), map trim (split_on 0x2C p))"
      by (simp add: parse_suggestions_def)
    ultimately show ?thesis by blast
  qed
  have 5: "handleSendMessage arg s = s \<or> suggestions (handleSendMessage arg s) = []"
    by (rule send_clears_suggestions)
  have 6: "k < length (pending s) \<and> turn (pending s ! k) = ChatTurn \<and> suggestions s = []
        \<and> raw \<noteq> [] \<and> \<not> ?P
        \<longrightarrow> suggestions (resolve k (Reply (Some raw)) s) = []
            \<and> chats (resolve k (Reply (Some raw)) s)
                = map (update_chat (target (pending s ! k))
                         (snapshot (pending s ! k) @ [model_msg raw]))
                    (chats s)"
  proof (intro impI, elim conjE)
    assume h: "k < length (pending s)" "turn (pending s ! k) = ChatTurn" "suggestions s = []"
      "raw \<noteq> []" "\<not> ?P"
    from n [OF h(5)] h(4) have rt: "reply_text (Some raw) (suggestions s) = (raw, suggestions s)"
      by (rule reply_text_plain [rotated])
    show "suggestions (resolve k (Reply (Some raw)) s) = []
            \<and> chats (resolve k (Reply (Some raw)) s)
                = map (update_chat (target (pending s ! k))
                         (snapshot (pending s ! k) @ [model_msg raw]))
                    (chats s)"
      using h(1,2,3) rt by (simp add: resolve_chat_suggestions resolve_chat_chats)
  qed
  from 1 2 3 4 5 6 parse_plain_example show ?thesis by blast
qed

theorem C6_pattern_absent_passthrough_witness:
  "\<not> (\<exists>b p a. str ''Just a normal reply, no directive here.'' = b @ DIRECTIVE_OPEN @ p @ str '']'' @ a
         \<and> (\<forall>c \<in> set p. \<not> is_line_terminator c))
   \<and> 0x5D \<notin> set (str ''Try this [SUGGESTIONS: Make a plan, Take a break'')
   \<and> parse_suggestions (str ''Try this [SUGGESTIONS: Make a plan, Take a break'') []
       = (str ''Try this [SUGGESTIONS: Make a plan, Take a break'', [])
   \<and> \<not> includes_str (str ''All good [ok]'') DIRECTIVE_OPEN
   \<and> parse_suggestions (str ''All good [ok]'') [] = (str ''All good [ok]'', [])
   \<and> suggestions first_send = []
   \<and> suggestions (resolve 0 (Reply (Some (str ''Just a normal reply, no directive here.''))) first_send) = []
   \<and> map messages (chats (resolve 0 (Reply (Some (str ''Just a normal reply, no directive here.''))) first_send))
       = [[model_msg WELCOME_FIRST, user_msg (str ''hello'') None,
           model_msg (str ''Just a normal reply, no directive here.'')]]"
proof -
  let ?r = "str ''Just a normal reply, no directive here.''"
  have h1: "\<not> (\<exists>b p a. ?r = b @ DIRECTIVE_OPEN @ p @ str '']'' @ a
         \<and> (\<forall>c \<in> set p. \<not> is_line_terminator c))"
    using plain_no_match regex_exec_None_iff [of ?r] by (simp add: close_bracket)
  have h2: "0 < length (pending first_send) \<and> turn (pending first_send ! 0) = ChatTurn
            \<and> suggestions first_send = []"
    by (simp add: first_send_eq)
  have h3: "?r \<noteq> []" by (simp add: str_def)
  have a: "suggestions (resolve 0 (Reply (Some ?r)) first_send) = []
           \<and> chats (resolve 0 (Reply (Some ?r)) first_send)
               = map (update_chat (target (pending first_send ! 0))
                        (snapshot (pending first_send ! 0) @ [model_msg ?r]))
                   (chats first_send)"
    using C6_pattern_absent_passthrough [where raw = ?r and sugg = "[]" and k = 0 and s = first_send]
      h1 h2 h3 by blast
  have b: "map messages (map (update_chat (target (pending first_send ! 0))
                        (snapshot (pending first_send ! 0) @ [model_msg ?r]))
                   (chats first_send))
           = [[model_msg WELCOME_FIRST, user_msg (str ''hello'') None, model_msg ?r]]"
    by (simp add: first_send_eq update_chat_def new_chat_neq)
  have c: "parse_suggestions (str ''Try this [SUGGESTIONS: Make a plan, Take a break'') []
             = (str ''Try this [SUGGESTIONS: Make a plan, Take a break'', [])"
    using C6_pattern_absent_passthrough
        [where raw = "str ''Try this [SUGGESTIONS: Make a plan, Take a break''" and sugg = "[]"]
      unclosed_example(1) by blast
  have d: "parse_suggestions (str ''All good [ok]'') [] = (str ''All good [ok]'', [])"
    using C6_pattern_absent_passthrough [where raw = "str ''All good [ok]''" and sugg = "[]"]
      unclosed_example(3) by blast
  from a b have e: "map messages (chats (resolve 0 (Reply (Some ?r)) first_send))
       = [[model_msg WELCOME_FIRST, user_msg (str ''hello'') None, model_msg ?r]]"
    by simp
  from h1 h2 a c d e unclosed_example show ?thesis by blast
qed

subsection \<open>C9: which chat an update touches\<close>

text \<open>
  C9 (as the claim states it, refuted). The claim says every update leaves the sessions
  other than the active one unchanged. The update made when a remote call is answered
  uses the chat id its closure captured when the message was sent. Send "hello" in chat
  "1", open a new session (id "5", now the active one), then let the reply "ok" arrive:
  chat "1", which is not the active chat, gets the reply appended.
\<close>

theorem C9_reply_rewrites_inactive_chat:
  "currentChatId switched = str ''5''
   \<and> map chat_id (chats switched) = [str ''5'', str ''1'']
   \<and> messages (chats switched ! 1) = [model_msg WELCOME_FIRST, user_msg (str ''hello'') None]
   \<and> messages (chats (resolve 0 (Reply (Some (str ''ok''))) switched) ! 1)
       = [model_msg WELCOME_FIRST, user_msg (str ''hello'') None, model_msg (str ''ok'')]
   \<and> currentChatId (resolve 0 (Reply (Some (str ''ok''))) switched) = str ''5''"
  by (simp add: switched_eq first_send_eq resolve_def resolve_chat_def ok_reply Let_def
      updateChatMessages_def update_chat_def ids_5 new_chat_neq)

text \<open>
  C9 (amended). Every update of the messages targets one chat id and keeps the frame of
  that id: the chats keep their number and order, every chat with another id is unchanged
  in all its fields, and every chat keeps its id and its \<^verbatim>\<open>createdAt\<close>. For
  \<open>updateCurrentChatMessages\<close> called on a state, which also leaves every other cell of
  the state alone, for a submit, for a study-plan request and for Clear Chat the target is
  the id that is current when the handler runs. For the update made when a remote call is
  answered the target is the id that was current when the call was issued, which the
  request carries.
\<close>

theorem C9_update_frame:
  "frame_except cid (chats s) (chats (updateChatMessages cid ms s))
   \<and> updateCurrentChatMessages ms s = updateChatMessages (currentChatId s) ms s
   \<and> updateCurrentChatMessages ms s = s\<lparr>chats := chats (updateCurrentChatMessages ms s)\<rparr>
   \<and> frame_except (currentChatId s) (chats s) (chats (updateCurrentChatMessages ms s))
   \<and> frame_except (currentChatId s) (chats s) (chats (handleSendMessage arg s))
   \<and> frame_except (currentChatId s) (chats s) (chats (generateStudyPlan task att s))
   \<and> frame_except (currentChatId s) (chats s) (chats (clearChat s))
   \<and> (pending (handleSendMessage arg s) = pending s
        \<or> (\<exists>q. pending (handleSendMessage arg s) = pending s @ [q] \<and> target q = currentChatId s))
   \<and> (\<exists>q. pending (generateStudyPlan task att s) = pending s @ [q] \<and> target q = currentChatId s)
   \<and> (k < length (pending s)
        \<longrightarrow> frame_except (target (pending s ! k)) (chats s) (chats (resolve k r s)))"
  using frame_updateChatMessages [of cid s ms] frame_updateCurrent [of s ms]
    update_only_chats [of ms s] frame_handleSendMessage [of s arg]
    frame_generateStudyPlan [of s task att] frame_clearChat [of s]
    sent_target [of arg s] plan_target [of task att s] frame_resolve [of k s r]
  by (simp add: updateCurrentChatMessages_def)

theorem C9_update_frame_witness:
  "0 < length (pending switched)
   \<and> target (pending switched ! 0) = str ''1''
   \<and> chat_id (chats switched ! 0) = str ''5''
   \<and> chats (resolve 0 (Reply (Some (str ''ok''))) switched) ! 0 = chats switched ! 0
   \<and> chat_id (chats (resolve 0 (Reply (Some (str ''ok''))) switched) ! 1) = str ''1''"
proof -
  have h: "0 < length (pending switched)" "target (pending switched ! 0) = str ''1''"
    "length (chats switched) = 2" "chat_id (chats switched ! 0) = str ''5''"
    "chat_id (chats switched ! 1) = str ''1''"
    by (simp_all add: switched_eq first_send_eq)
  have "frame_except (target (pending switched ! 0)) (chats switched)
          (chats (resolve 0 (Reply (Some (str ''ok''))) switched))"
    using C9_update_frame [where s = switched and k = 0 and r = "Reply (Some (str ''ok''))"] h(1)
    by blast
  then have f: "\<forall>i < 2.
            (chat_id (chats switched ! i) \<noteq> str ''1''
               \<longrightarrow> chats (resolve 0 (Reply (Some (str ''ok''))) switched) ! i = chats switched ! i)
            \<and> chat_id (chats (resolve 0 (Reply (Some (str ''ok''))) switched) ! i)
                = chat_id (chats switched ! i)"
    unfolding frame_except_def h(2) h(3) by blast
  from f have "chats (resolve 0 (Reply (Some (str ''ok''))) switched) ! 0 = chats switched ! 0"
    using h(4) ids_5 by auto
  moreover from f have "chat_id (chats (resolve 0 (Reply (Some (str ''ok''))) switched) ! 1) = str ''1''"
    using h(5) by auto
  ultimately show ?thesis using h by simp
qed

section \<open>Startup hydration\<close>

text \<open>
  Lines 96-106. \<^verbatim>\<open>localStorage.getItem\<close> gives a string or null; \<^verbatim>\<open>if (saved)\<close> holds
  for a non-empty string; \<^verbatim>\<open>JSON.parse\<close> either throws a SyntaxError or returns a value
  of any JSON shape, which becomes the \<^verbatim>\<open>chats\<close> cell as it is. \<^verbatim>\<open>JSON.parse\<close> belongs
  to the platform, not to this program: it is the parameter \<open>JSON_parse\<close>. Numbers are
  integral here, which is all a timestamp needs.
\<close>

datatype json =
    JNull
  | JBool bool
  | JNum int
  | JStr jsstring
  | JArr "json list"
  | JObj "(jsstring \<times> json) list"

datatype hydrated = Stored json | Fresh "Chat list"

definition hydrate :: "(jsstring \<Rightarrow> error + json) \<Rightarrow> int \<Rightarrow> jsstring option \<Rightarrow> error + hydrated" where
  "hydrate JSON_parse now saved =
     (case saved of
        None \<Rightarrow> Inr (Fresh [initialChat now])
      | Some v \<Rightarrow>
          if v = [] then Inr (Fresh [initialChat now])
          else (case JSON_parse v of Inl e \<Rightarrow> Inl e | Inr j \<Rightarrow> Inr (Stored j)))"

text \<open>
  The shape the program expects of the stored value (the interface \<^verbatim>\<open>Chat[]\<close>, and the
  unguarded \<^verbatim>\<open>chats[0].id\<close> of line 107): a non-empty array of objects with a string
  \<^verbatim>\<open>id\<close>, a string \<^verbatim>\<open>title\<close>, an array \<^verbatim>\<open>messages\<close> of messages and a number
  \<^verbatim>\<open>createdAt\<close>. Of a repeated key, the last value counts.
\<close>

definition field :: "(jsstring \<times> json) list \<Rightarrow> string \<Rightarrow> json option" where
  "field kv k = map_of (rev kv) (str k)"

definition is_string :: "json option \<Rightarrow> bool" where
  "is_string v = (case v of Some (JStr s) \<Rightarrow> True | _ \<Rightarrow> False)"

definition is_message :: "json \<Rightarrow> bool" where
  "is_message j =
     (case j of
        JObj kv \<Rightarrow>
          (field kv ''role'' = Some (JStr (str ''user'')) \<or> field kv ''role'' = Some (JStr (str ''model'')))
          \<and> is_string (field kv ''text'')
      | _ \<Rightarrow> False)"

definition is_chat :: "json \<Rightarrow> bool" where
  "is_chat j =
     (case j of
        JObj kv \<Rightarrow>
          is_string (field kv ''id'') \<and> is_string (field kv ''title'')
          \<and> (case field kv ''messages'' of Some (JArr ms) \<Rightarrow> list_all is_message ms | _ \<Rightarrow> False)
          \<and> (case field kv ''createdAt'' of Some (JNum n) \<Rightarrow> True | _ \<Rightarrow> False)
      | _ \<Rightarrow> False)"

definition is_session_list :: "hydrated \<Rightarrow> bool" where
  "is_session_list h =
     (case h of
        Fresh cs \<Rightarrow> cs \<noteq> []
      | Stored (JArr xs) \<Rightarrow> xs \<noteq> [] \<and> list_all is_chat xs
      | Stored _ \<Rightarrow> False)"

subsection \<open>C10: hydration returns what was stored\<close>

text \<open>
  C10. When a non-empty string is stored, hydration is \<^verbatim>\<open>JSON.parse\<close> of it and nothing
  else: if parsing throws, hydration throws; if parsing returns a value, that value is the
  store, whatever its shape; the fresh default session is used only when nothing, or the
  empty string, is stored. So with the stored text \<^verbatim>\<open>[]\<close>, which parses to the empty
  array, the store is an empty list, and with the stored text \<^verbatim>\<open>{\<close>, which does not
  parse, hydration fails.
\<close>

theorem C10_hydration_unvalidated:
  "(v \<noteq> [] \<and> JSON_parse v = Inl e \<longrightarrow> hydrate JSON_parse now (Some v) = Inl e)
   \<and> (v \<noteq> [] \<and> JSON_parse v = Inr j \<longrightarrow> hydrate JSON_parse now (Some v) = Inr (Stored j))
   \<and> (v \<noteq> [] \<longrightarrow> hydrate JSON_parse now (Some v) \<noteq> Inr (Fresh [initialChat now]))
   \<and> (JSON_parse (str ''[]'') = Inr (JArr [])
        \<longrightarrow> hydrate JSON_parse now (Some (str ''[]'')) = Inr (Stored (JArr []))
            \<and> \<not> is_session_list (Stored (JArr [])))
   \<and> (JSON_parse (str ''{'') = Inl SyntaxError
        \<longrightarrow> hydrate JSON_parse now (Some (str ''{'')) = Inl SyntaxError)
   \<and> hydrate JSON_parse now None = Inr (Fresh [initialChat now])
   \<and> hydrate JSON_parse now (Some []) = Inr (Fresh [initialChat now])
   \<and> is_session_list (Fresh [initialChat now])"
  by (auto simp: hydrate_def is_session_list_def str_def split: sum.splits)

theorem C10_hydration_unvalidated_witness:
  "hydrate (\<lambda>v. if v = str ''[]'' then Inr (JArr []) else Inl SyntaxError) 0 (Some (str ''[]''))
     = Inr (Stored (JArr []))
   \<and> \<not> is_session_list (Stored (JArr []))
   \<and> hydrate (\<lambda>v. if v = str ''[]'' then Inr (JArr []) else Inl SyntaxError) 0 (Some (str ''{''))
     = Inl SyntaxError"
proof -
  let ?P = "\<lambda>v. if v = str ''[]'' then Inr (JArr []) else Inl SyntaxError"
  have h: "str ''[]'' \<noteq> []" "str ''{'' \<noteq> []" "?P (str ''[]'') = Inr (JArr [])"
      "?P (str ''{'') = Inl SyntaxError"
    by (simp_all add: str_def)
  from C10_hydration_unvalidated [of "str ''[]''" ?P SyntaxError 0 "JArr []"]
    C10_hydration_unvalidated [of "str ''{''" ?P SyntaxError 0 "JArr []"] h
  show ?thesis by blast
qed

end
